theory Spec2Isabelle
  imports Main "HOL-Library.AList"
begin

section \<open>The controller module of cement2 (core/controller.py)\<close>

text \<open>
  The module is Python. Its state is carried explicitly: a method that mutates
  \<open>self\<close> takes the instance and returns the updated one, a raise is the \<open>Inl\<close>
  branch of a sum. A Python dict is an association list in insertion order; storing
  under a key that is already there replaces the value in place and storing under a
  new key appends (\<open>AList.update\<close>), so iterating the list visits the keys in the
  order in which they were inserted first. That is the order of a dict in Python 3.7
  and later, and the order the specification gives to \<open>exposed\<close> and \<open>visible\<close>; no
  theorem below depends on it.
\<close>

subsection \<open>Python values the module works on\<close>

datatype error = NotImplementedError | AttributeError | TypeError | NotFound

definition startswith :: "string \<Rightarrow> string \<Rightarrow> bool" where
  "startswith s p = (take (length p) s = p)"

fun join :: "string \<Rightarrow> string list \<Rightarrow> string" where
  "join sep [] = []"
| "join sep [x] = x"
| "join sep (x # y # ys) = x @ sep @ join sep (y # ys)"

text \<open>One entry of \<open>meta.arguments\<close>: the pair \<open>(_args, _kwargs)\<close>, handed to the parser as it is.\<close>

type_synonym argspec = "string list \<times> (string \<times> string) list"

text \<open>
  The attribute \<open>stacked_on\<close> of a \<open>meta\<close> class. The code asks \<open>hasattr\<close> first, so a
  class without the attribute differs from one that sets it to \<open>None\<close>.
\<close>

datatype stacked_attr = No_attribute | Is_None | Label string

text \<open>
  The nested class \<open>meta\<close> of a controller. \<open>meta_description\<close> and \<open>meta_hide\<close> are
  \<open>None\<close> when the class has no such attribute (\<open>CementBaseController.meta\<close> has no
  \<open>description\<close>; \<open>hide\<close> is read with \<open>getattr(meta, 'hide', None)\<close>). The label,
  under which the controller is registered, and the list \<open>arguments\<close>, empty in the
  base class, are taken as present.
\<close>

record meta =
  meta_label :: string
  meta_description :: "string option"
  meta_arguments :: "argspec list"
  meta_stacked_on :: stacked_attr
  meta_hide :: "bool option"

text \<open>\<open>getattr(meta, 'hide', None)\<close> used as a condition.\<close>

definition getattr_hide :: "meta \<Rightarrow> bool" where
  "getattr_hide m = (case meta_hide m of None \<Rightarrow> False | Some b \<Rightarrow> b)"

text \<open>The decorator \<open>expose(hide, help, aliases)\<close>: \<open>__init__\<close> stores its arguments.\<close>

record expose =
  ex_hide :: bool
  ex_help :: string
  ex_aliases :: "string list"

definition expose_init :: "bool \<Rightarrow> string \<Rightarrow> string list \<Rightarrow> expose" where
  "expose_init h t al = \<lparr>ex_hide = h, ex_help = t, ex_aliases = al\<rparr>"

text \<open>
  What a method body does when called. The only body the module itself defines is
  that of \<open>default\<close>; the bodies an application writes are numbered and run by a
  function the theorems leave arbitrary.
\<close>

datatype body = Base_default | App_code nat

text \<open>
  What stands behind a name of \<open>dir(self)\<close>: a method, decorated with \<open>expose\<close> or
  not; one of the two properties \<open>help_text\<close> and \<open>usage_text\<close> of the base class, which
  \<open>getattr\<close> computes when it reads them; or an attribute that is neither callable nor
  computed. \<open>expose.__call__\<close> sets \<open>func.label = func.__name__\<close>, the name of the
  \<open>def\<close>, which is the name under which \<open>dir\<close> lists the method; \<open>func.exposed\<close> exists
  exactly on decorated methods. The methods \<open>setup\<close>, \<open>dispatch\<close> and \<open>_collect\<close> are
  not decorated and are left out of the lists.
\<close>

datatype member = Method "expose option" body | Help_text_property | Usage_text_property | Data

text \<open>
  A controller class: its \<open>meta\<close> and the names of \<open>dir(self)\<close> in the order \<open>dir\<close>
  returns them, each with what stands behind it.
\<close>

record controller_class =
  meta :: meta
  members :: "(string \<times> member) list"

text \<open>The dict built for a command: keys \<open>controller\<close>, \<open>label\<close>, \<open>help\<close>, \<open>aliases\<close>, \<open>hide\<close>.\<close>

record func_dict =
  fd_controller :: string
  fd_label :: string
  fd_help :: string
  fd_aliases :: "string list"
  fd_hide :: bool

type_synonym commands = "(string \<times> func_dict) list"

text \<open>
  The application object as far as the controller touches it: \<open>app.argv\<close> and the
  parser \<open>app.args\<close> with its \<open>prog\<close>, \<open>description\<close>, \<open>usage\<close>, \<open>formatter_class\<close>
  and the argument specifications given to \<open>add_argument\<close> so far. The parser is not
  part of the module: \<open>add_argument\<close> records the specification and nothing else.
\<close>

record app =
  argv :: "string list"
  args_prog :: string
  args_description :: string
  args_usage :: string
  args_formatter_class :: string
  args_added :: "argspec list"

definition add_argument :: "argspec \<Rightarrow> app \<Rightarrow> app" where
  "add_argument spec a = a\<lparr>args_added := args_added a @ [spec]\<rparr>"

text \<open>
  An instance of a controller. \<open>debug\<close> holds the lines given to \<open>Log.debug\<close> while the
  methods of the instance run. The attributes \<open>config\<close>, \<open>log\<close> and \<open>pargs\<close> are only
  set from what the application's parser returns and are left out.
\<close>

record controller =
  klass :: controller_class
  app :: "app option"
  command :: string
  visible :: commands
  hidden :: commands
  exposed :: commands
  arguments :: "argspec list"
  debug :: "string list"

definition Log_debug :: "string \<Rightarrow> controller \<Rightarrow> controller" where
  "Log_debug line st = st\<lparr>debug := debug st @ [line]\<rparr>"

definition label :: "controller \<Rightarrow> string" where
  "label st = meta_label (meta (klass st))"

definition ignored :: "string list" where
  "ignored = [''visible'', ''hidden'', ''exposed'']"

subsection \<open>\<open>CementBaseController.__init__\<close>\<close>

definition init :: "controller_class \<Rightarrow> controller" where
  "init c = \<lparr>klass = c, app = None, command = ''default'', visible = [], hidden = [],
     exposed = [], arguments = [], debug = []\<rparr>"

subsection \<open>The properties \<open>usage_text\<close> and \<open>help_text\<close>\<close>

definition usage_text :: "controller \<Rightarrow> error + string" where
  "usage_text st =
     (case app st of
        None \<Rightarrow> Inl AttributeError
      | Some a \<Rightarrow>
          if label st = ''base''
          then Inr (args_prog a @ '' <CMD> -opt1 --opt2=VAL [arg1] [arg2] ...'')
          else Inr (args_prog a @ '' '' @ label st
                 @ '' <CMD> -opt1 --opt2=VAL [arg1] [arg2] ...''))"

definition nl :: string where
  "nl = [CHR 0x0A]"

text \<open>
  \<open>textwrap.dedent\<close> of the Python library, as Python 2.7 has it: a line of blanks
  and tabs only becomes empty; the margin is taken over the leading blanks and tabs of
  the other non-empty lines (a line that does not agree with the margin found so far
  ends the search with no margin), and is removed from the lines that start with it
  when it is not empty. The text of \<open>help_text\<close> always has the line \<open>commands:\<close>,
  which is not indented, so that its margin is empty in every version of the library.
\<close>

fun split_lines :: "string \<Rightarrow> string list" where
  "split_lines [] = [[]]"
| "split_lines (c # cs) =
     (if c = CHR 0x0A then [] # split_lines cs
      else (case split_lines cs of
              [] \<Rightarrow> [[c]]
            | l # ls \<Rightarrow> (c # l) # ls))"

definition is_blank :: "char \<Rightarrow> bool" where
  "is_blank c = (c = CHR '' '' \<or> c = CHR 0x09)"

definition whitespace_only :: "string \<Rightarrow> bool" where
  "whitespace_only l = (l \<noteq> [] \<and> list_all is_blank l)"

fun margin_loop :: "string option \<Rightarrow> string list \<Rightarrow> string option" where
  "margin_loop margin [] = margin"
| "margin_loop None (indent # indents) = margin_loop (Some indent) indents"
| "margin_loop (Some margin) (indent # indents) =
     (if startswith indent margin then margin_loop (Some margin) indents
      else if startswith margin indent then margin_loop (Some indent) indents
      else Some [])"

definition remove_margin :: "string option \<Rightarrow> string \<Rightarrow> string" where
  "remove_margin margin l =
     (case margin of
        None \<Rightarrow> l
      | Some m \<Rightarrow> if m \<noteq> [] \<and> startswith l m then drop (length m) l else l)"

definition dedent :: "string \<Rightarrow> string" where
  "dedent text =
     (let ls = map (\<lambda>l. if whitespace_only l then [] else l) (split_lines text);
          indents = map (takeWhile is_blank) (filter (\<lambda>l. l \<noteq> []) ls);
          margin = margin_loop None indents
      in join nl (map (remove_margin margin) ls))"

text \<open>One round of the loop over \<open>self.visible\<close> in \<open>help_text\<close>.\<close>

definition add_command_text :: "string \<times> func_dict \<Rightarrow> string \<Rightarrow> string" where
  "add_command_text lf cmd_txt =
     (let func = snd lf;
          cmd_txt1 =
            (if length (fd_aliases func) > 0
             then cmd_txt @ ''  '' @ fd_label func @ '' (aliases: ''
                    @ join '', '' (fd_aliases func) @ '')'' @ nl
             else cmd_txt @ ''  '' @ fd_label func @ nl)
      in if fd_help func \<noteq> [] then cmd_txt1 @ ''    '' @ fd_help func @ nl @ nl
         else cmd_txt1 @ nl)"

definition help_text :: "controller \<Rightarrow> error + string" where
  "help_text st =
     (let cmd_txt = fold add_command_text (visible st) []
      in case meta_description (meta (klass st)) of
           None \<Rightarrow> Inl AttributeError
         | Some d \<Rightarrow>
             Inr (dedent (d @ nl @ nl @ ''commands:'' @ nl @ nl @ cmd_txt @ nl @ nl
                    @ ''        '' @ nl @ ''        '')))"

subsection \<open>\<open>CementBaseController._collect\<close>\<close>

text \<open>
  The loops \<open>for _args,_kwargs in ...arguments: self.app.args.add_argument(...)\<close>.
  \<open>self.app\<close> is \<open>None\<close> until \<open>setup\<close> stores the application, and reading \<open>.args\<close>
  of \<open>None\<close> raises; an empty list never reads it.
\<close>

fun add_arguments :: "argspec list \<Rightarrow> controller \<Rightarrow> error + controller" where
  "add_arguments [] st = Inr st"
| "add_arguments (spec # specs) st =
     (case app st of
        None \<Rightarrow> Inl AttributeError
      | Some a \<Rightarrow> add_arguments specs (st\<lparr>app := Some (add_argument spec a)\<rparr>))"

text \<open>
  One round of the loop over \<open>dir(self)\<close> (lines 192 to 210). \<open>func.label\<close> is the name
  of the member. \<open>getattr(self, member)\<close> computes a property, so the round raises what
  the property raises; the text it returns has no attribute \<open>exposed\<close>.
\<close>

definition collect_member :: "string \<times> member \<Rightarrow> controller \<Rightarrow> error + controller" where
  "collect_member nm st =
     (if fst nm \<in> set ignored \<or> startswith (fst nm) ''_'' then Inr st
      else case snd nm of
        Method (Some e) b \<Rightarrow>
          (let func_dict = \<lparr>fd_controller = label st, fd_label = fst nm, fd_help = ex_help e,
                 fd_aliases = ex_aliases e, fd_hide = ex_hide e\<rparr>;
               st1 = st\<lparr>exposed := AList.update (fst nm) func_dict (exposed st)\<rparr>
           in if ex_hide e then Inr (st1\<lparr>hidden := AList.update (fst nm) func_dict (hidden st1)\<rparr>)
              else if getattr_hide (meta (klass st)) then Inr st1
              else Inr (st1\<lparr>visible := AList.update (fst nm) func_dict (visible st1)\<rparr>))
      | Method None b \<Rightarrow> Inr st
      | Help_text_property \<Rightarrow> (case help_text st of Inl e \<Rightarrow> Inl e | Inr txt \<Rightarrow> Inr st)
      | Usage_text_property \<Rightarrow> (case usage_text st of Inl e \<Rightarrow> Inl e | Inr txt \<Rightarrow> Inr st)
      | Data \<Rightarrow> Inr st)"

fun collect_members :: "(string \<times> member) list \<Rightarrow> controller \<Rightarrow> error + controller" where
  "collect_members [] st = Inr st"
| "collect_members (nm # nms) st =
     (case collect_member nm st of
        Inl e \<Rightarrow> Inl e
      | Inr st1 \<Rightarrow> collect_members nms st1)"

text \<open>
  One round of the loop over \<open>func_dicts\<close> (lines 247 to 253), for the stacked
  controller class \<open>c\<close>.
\<close>

definition merge_stacked ::
  "controller_class \<Rightarrow> string \<times> func_dict \<Rightarrow> controller \<Rightarrow> controller" where
  "merge_stacked c lf st =
     (let st1 = st\<lparr>exposed := AList.update (fst lf) (snd lf) (exposed st)\<rparr>
      in if fd_hide (snd lf) then st1\<lparr>hidden := AList.update (fst lf) (snd lf) (hidden st1)\<rparr>
         else if getattr_hide (meta c) then st1
         else st1\<lparr>visible := AList.update (fst lf) (snd lf) (visible st1)\<rparr>)"

text \<open>
  One round of the loop over \<open>handler.list('controller')\<close> (lines 213 to 253).
  \<open>func_dicts = controller().visible\<close> reads the attribute of an instance that
  \<open>__init__\<close> has just built.
\<close>

definition collect_controller :: "controller_class \<Rightarrow> controller \<Rightarrow> error + controller" where
  "collect_controller c st =
     (if meta_label (meta c) = label st then Inr st
      else if meta_stacked_on (meta c) = No_attribute then
        (if meta_label (meta c) = ''base'' then Inr st
         else if getattr_hide (meta c) then Inr st
         else
           (let st1 = Log_debug (''exposing '' @ meta_label (meta c) @ '' controller'') st
            in case meta_description (meta c) of
                 None \<Rightarrow> Inl AttributeError
               | Some d \<Rightarrow>
                  (let func_dict = \<lparr>fd_controller = meta_label (meta c),
                         fd_label = meta_label (meta c), fd_help = d, fd_aliases = [],
                         fd_hide = False\<rparr>;
                       st2 = st1\<lparr>exposed := AList.update (meta_label (meta c)) func_dict (exposed st1)\<rparr>
                   in if getattr_hide (meta c) then Inr st2
                      else Inr (st2\<lparr>visible :=
                             AList.update (meta_label (meta c)) func_dict (visible st2)\<rparr>))))
      else if meta_stacked_on (meta c) = Label (label st) then
        (case add_arguments (meta_arguments (meta c))
                (Log_debug (''collecting arguments from '' @ meta_label (meta c)
                    @ '' controller (stacked)'') st) of
           Inl e \<Rightarrow> Inl e
         | Inr st1 \<Rightarrow>
            (let st2 = Log_debug (''collecting commands from '' @ meta_label (meta c)
                          @ '' controller (stacked)'') st1;
                 func_dicts = visible (init c)
             in Inr (fold (merge_stacked c) func_dicts st2)))
      else Inr st)"

fun collect_controllers :: "controller_class list \<Rightarrow> controller \<Rightarrow> error + controller" where
  "collect_controllers [] st = Inr st"
| "collect_controllers (c # cs) st =
     (case collect_controller c st of
        Inl e \<Rightarrow> Inl e
      | Inr st1 \<Rightarrow> collect_controllers cs st1)"

text \<open>
  \<open>_collect\<close>. The first argument is what \<open>handler.list('controller')\<close> returns, the
  registered controller classes in the order of the registry.
\<close>

definition collect :: "controller_class list \<Rightarrow> controller \<Rightarrow> error + controller" where
  "collect registry st =
     (let st0 = st\<lparr>visible := [], hidden := [], exposed := [], arguments := []\<rparr>
      in case add_arguments (meta_arguments (meta (klass st0)))
                (Log_debug (''collecting arguments from '' @ label st0 @ '' controller'') st0) of
           Inl e \<Rightarrow> Inl e
         | Inr st1 \<Rightarrow>
            (case collect_members (members (klass st1))
                    (Log_debug (''collecting commands from '' @ label st1 @ '' controller'') st1) of
               Inl e \<Rightarrow> Inl e
             | Inr st2 \<Rightarrow> collect_controllers registry st2))"

subsection \<open>\<open>CementBaseController.setup\<close>\<close>

text \<open>
  The loop \<open>for label in self.exposed\<close> of lines 131 to 136: the \<open>label\<close> entry of the
  first command, in the order of the dict, whose aliases hold the token. The keys of
  a dict are distinct, so the pairs of the list are the \<open>label\<close> and \<open>self.exposed[label]\<close>
  of the rounds.
\<close>

fun scan_aliases :: "commands \<Rightarrow> string \<Rightarrow> string option" where
  "scan_aliases [] tok = None"
| "scan_aliases (lf # rest) tok =
     (if tok \<in> set (fd_aliases (snd lf)) then Some (fd_label (snd lf))
      else scan_aliases rest tok)"

text \<open>
  Lines 127 to 136, "chop off a command argument if it matches an exposed command".
  \<open>argv.pop(0)\<close> removes the first token.
\<close>

definition chop_command :: "controller \<Rightarrow> error + controller" where
  "chop_command st =
     (case app st of
        None \<Rightarrow> Inl AttributeError
      | Some a \<Rightarrow>
         (case argv a of
            [] \<Rightarrow> Inr st
          | tok # rest \<Rightarrow>
              if startswith tok ''-'' then Inr st
              else if tok \<in> fst ` set (exposed st)
                then Inr (st\<lparr>command := tok, app := Some (a\<lparr>argv := rest\<rparr>)\<rparr>)
              else (case scan_aliases (exposed st) tok of
                      None \<Rightarrow> Inr st
                    | Some l \<Rightarrow> Inr (st\<lparr>command := l, app := Some (a\<lparr>argv := rest\<rparr>)\<rparr>))))"

text \<open>
  The method \<open>setup\<close> (here \<open>setup_controller\<close>) up to the call of
  \<open>self.app._parse_args()\<close>, which belongs to the application and whose result the
  method only copies into \<open>config\<close>, \<open>log\<close> and \<open>pargs\<close>.
\<close>

definition setup_controller ::
  "controller_class list \<Rightarrow> app \<Rightarrow> controller \<Rightarrow> error + controller" where
  "setup_controller registry base_app st =
     (case collect registry (st\<lparr>app := Some base_app\<rparr>) of
        Inl e \<Rightarrow> Inl e
      | Inr st1 \<Rightarrow>
         (case chop_command st1 of
            Inl e \<Rightarrow> Inl e
          | Inr st2 \<Rightarrow>
             (case help_text st2 of
                Inl e \<Rightarrow> Inl e
              | Inr h \<Rightarrow>
                 (case usage_text st2 of
                    Inl e \<Rightarrow> Inl e
                  | Inr u \<Rightarrow>
                     (case app st2 of
                        None \<Rightarrow> Inl AttributeError
                      | Some a \<Rightarrow>
                          Inr (st2\<lparr>app := Some (a\<lparr>args_description := h, args_usage := u,
                                 args_formatter_class := ''RawDescriptionHelpFormatter''\<rparr>)\<rparr>))))))"

subsection \<open>\<open>default\<close> and \<open>dispatch\<close>\<close>

definition default :: "controller \<Rightarrow> error + controller" where
  "default st = Inl NotImplementedError"

text \<open>
  \<open>getattr(obj, name)()\<close>: the attribute is looked up among the members of the class
  of the instance and called without arguments. \<open>app_code\<close> runs the bodies that the
  application wrote. A property is computed first, and the text it gives cannot be
  called.
\<close>

definition call_method ::
  "(nat \<Rightarrow> controller \<Rightarrow> error + controller) \<Rightarrow> controller \<Rightarrow> string \<Rightarrow> error + controller" where
  "call_method app_code obj name =
     (case map_of (members (klass obj)) name of
        None \<Rightarrow> Inl AttributeError
      | Some Data \<Rightarrow> Inl TypeError
      | Some Help_text_property \<Rightarrow>
          (case help_text obj of Inl e \<Rightarrow> Inl e | Inr txt \<Rightarrow> Inl TypeError)
      | Some Usage_text_property \<Rightarrow>
          (case usage_text obj of Inl e \<Rightarrow> Inl e | Inr txt \<Rightarrow> Inl TypeError)
      | Some (Method e Base_default) \<Rightarrow> default obj
      | Some (Method e (App_code n)) \<Rightarrow> app_code n obj)"

text \<open>
  Modelled from the spec: \<open>handler.get('controller', label)\<close> of the module
  \<open>cement2.core.handler\<close>, which is not among the sources. The spec has
  \<open>get(label) -> factory\<close>, failing with \<open>NotFound\<close> when no controller of that label
  is registered.
\<close>

fun handler_get :: "controller_class list \<Rightarrow> string \<Rightarrow> error + controller_class" where
  "handler_get [] l = Inl NotFound"
| "handler_get (c # cs) l = (if meta_label (meta c) = l then Inr c else handler_get cs l)"

text \<open>
  \<open>dispatch\<close>. A method called on the instance itself returns the instance as it
  leaves it; a method called on a fresh instance of another controller leaves the
  dispatching instance as it is.
\<close>

definition dispatch ::
  "(nat \<Rightarrow> controller \<Rightarrow> error + controller) \<Rightarrow> controller_class list \<Rightarrow> controller
     \<Rightarrow> error + controller" where
  "dispatch app_code registry st =
     (if command st = [] then Inr (Log_debug ''no command to dispatch'' st)
      else case map_of (exposed st) (command st) of
        None \<Rightarrow> Inr (Log_debug (''no function named '' @ command st) st)
      | Some func \<Rightarrow>
         (let st1 = Log_debug (''dispatching command: '' @ fd_controller func @ ''.''
                       @ fd_label func) st
          in if fd_controller func = label st then call_method app_code st1 (fd_label func)
             else (case handler_get registry (fd_controller func) of
                     Inl e \<Rightarrow> Inl e
                   | Inr c \<Rightarrow>
                      (case call_method app_code (init c) (fd_label func) of
                         Inl e \<Rightarrow> Inl e
                       | Inr obj \<Rightarrow> Inr st1))))"

text \<open>
  The member \<open>default\<close> as \<open>CementBaseController\<close> defines it and every subclass
  inherits it: \<open>@expose(hide=True, help='default command')\<close>, with the default
  \<open>aliases=[]\<close>.
\<close>

definition base_default :: member where
  "base_default = Method (Some (expose_init True ''default command'' [])) Base_default"

subsection \<open>Example controllers\<close>

text \<open>An application object with the given arguments left on the command line.\<close>

definition cli :: "string list \<Rightarrow> app" where
  "cli args = \<lparr>argv = args, args_prog = ''myapp'', args_description = [], args_usage = [],
     args_formatter_class = [], args_added = []\<rparr>"

text \<open>Application code that returns normally and leaves a line in the log of its instance.\<close>

definition ran :: "nat \<Rightarrow> controller \<Rightarrow> error + controller" where
  "ran n obj = Inr (Log_debug ''application code ran'' obj)"

text \<open>A base controller with the command \<open>list\<close> and its aliases \<open>ls\<close> and \<open>l\<close>.\<close>

definition base_cls :: controller_class where
  "base_cls = \<lparr>meta = \<lparr>meta_label = ''base'', meta_description = Some ''My app'',
       meta_arguments = [], meta_stacked_on = No_attribute, meta_hide = None\<rparr>,
     members = [(''default'', base_default), (''help_text'', Help_text_property),
       (''list'', Method (Some (expose_init False ''List things'' [''ls'', ''l''])) (App_code 0)),
       (''usage_text'', Usage_text_property)]\<rparr>"

text \<open>A controller stacked on \<open>base\<close>, with the visible command \<open>hello\<close>.\<close>

definition second_cls :: controller_class where
  "second_cls = \<lparr>meta = \<lparr>meta_label = ''second'', meta_description = Some ''Second controller'',
       meta_arguments = [], meta_stacked_on = Label ''base'', meta_hide = None\<rparr>,
     members = [(''default'', base_default),
       (''hello'', Method (Some (expose_init False ''Say hello'' [])) (App_code 1)),
       (''help_text'', Help_text_property), (''usage_text'', Usage_text_property)]\<rparr>"

text \<open>A controller whose \<open>meta\<close> has no \<open>stacked_on\<close>, with a method named like its label.\<close>

definition third_cls :: controller_class where
  "third_cls = \<lparr>meta = \<lparr>meta_label = ''third'', meta_description = Some ''Third controller'',
       meta_arguments = [], meta_stacked_on = No_attribute, meta_hide = None\<rparr>,
     members = [(''default'', base_default), (''help_text'', Help_text_property),
       (''third'', Method None (App_code 2)), (''usage_text'', Usage_text_property)]\<rparr>"

text \<open>A controller whose \<open>meta\<close> sets \<open>stacked_on = None\<close>, as the \<open>meta\<close> of the base class does.\<close>

definition orphan_cls :: controller_class where
  "orphan_cls = \<lparr>meta = \<lparr>meta_label = ''orphan'', meta_description = Some ''Orphan controller'',
       meta_arguments = [], meta_stacked_on = Is_None, meta_hide = None\<rparr>,
     members = [(''default'', base_default), (''help_text'', Help_text_property),
       (''usage_text'', Usage_text_property)]\<rparr>"

text \<open>A controller without \<open>stacked_on\<close> that is registered under the label \<open>default\<close>.\<close>

definition default_cls :: controller_class where
  "default_cls = \<lparr>meta = \<lparr>meta_label = ''default'', meta_description = Some ''Default controller'',
       meta_arguments = [], meta_stacked_on = No_attribute, meta_hide = None\<rparr>,
     members = [(''default'', base_default), (''help_text'', Help_text_property),
       (''usage_text'', Usage_text_property)]\<rparr>"

text \<open>
  The members \<open>help_text\<close> and \<open>usage_text\<close> of the examples are the properties that every
  controller inherits. \<open>fresh\<close> is an instance that \<open>setup\<close> has given its application,
  before \<open>_collect\<close> runs.
\<close>

definition fresh :: "controller_class \<Rightarrow> string list \<Rightarrow> controller" where
  "fresh c args = (init c)\<lparr>app := Some (cli args)\<rparr>"

subsection \<open>Two instances with the same class and the same commands\<close>


subsection \<open>Unfolding the definitions\<close>

lemmas example_defs = base_cls_def second_cls_def third_cls_def orphan_cls_def default_cls_def
  fresh_def cli_def init_def base_default_def expose_init_def

lemmas collect_defs = collect_def collect_controller_def collect_member_def merge_stacked_def
  Log_debug_def label_def ignored_def startswith_def getattr_hide_def add_argument_def Let_def
  help_text_def usage_text_def


section \<open>What \<open>_collect\<close> leaves alone\<close>

lemma add_arguments_frame:
  "add_arguments specs st = Inr st' \<Longrightarrow>
     klass st' = klass st \<and> command st' = command st \<and> visible st' = visible st \<and>
     hidden st' = hidden st \<and> exposed st' = exposed st \<and> arguments st' = arguments st \<and>
     debug st' = debug st \<and> map_option argv (app st') = map_option argv (app st) \<and>
     (app st' = None \<longleftrightarrow> app st = None)"
proof (induction specs arbitrary: st)
  case Nil
  then show ?case by simp
next
  case (Cons spec specs)
  then show ?case
    by (cases "app st") (fastforce simp: add_argument_def)+
qed

lemma collect_member_frame:
  "collect_member nm st = Inr st' \<Longrightarrow>
     klass st' = klass st \<and> command st' = command st \<and> app st' = app st \<and>
     debug st' = debug st \<and> arguments st' = arguments st"
  by (auto simp: collect_member_def Let_def
        split: if_splits member.splits option.splits sum.splits)

lemma collect_members_frame:
  "collect_members ms st = Inr st' \<Longrightarrow>
     klass st' = klass st \<and> command st' = command st \<and> app st' = app st \<and>
     debug st' = debug st \<and> arguments st' = arguments st"
proof (induction ms arbitrary: st)
  case Nil
  then show ?case by simp
next
  case (Cons nm ms)
  from Cons.prems obtain st1 where
    1: "collect_member nm st = Inr st1" and 2: "collect_members ms st1 = Inr st'"
    by (auto split: sum.splits)
  from collect_member_frame [OF 1] Cons.IH [OF 2] show ?case by simp
qed

text \<open>The instance that \<open>controller()\<close> builds has no visible command.\<close>

lemma visible_init: "visible (init c) = []"
  by (simp add: init_def)

text \<open>So a round for a controller stacked on the collecting one adds no command.\<close>

lemma stacked_controller_adds_nothing:
  assumes "collect_controller c st = Inr st'"
    and "meta_label (meta c) \<noteq> label st" and "meta_stacked_on (meta c) = Label (label st)"
  shows "exposed st' = exposed st \<and> visible st' = visible st \<and> hidden st' = hidden st"
proof -
  from assms obtain st1 where
    "add_arguments (meta_arguments (meta c))
       (Log_debug (''collecting arguments from '' @ meta_label (meta c)
           @ '' controller (stacked)'') st) = Inr st1"
    and "st' = Log_debug (''collecting commands from '' @ meta_label (meta c)
                  @ '' controller (stacked)'') st1"
    by (auto simp: collect_controller_def Let_def visible_init split: sum.splits)
  with add_arguments_frame [of "meta_arguments (meta c)"] show ?thesis
    by (simp add: Log_debug_def)
qed

lemma collect_controller_frame:
  "collect_controller c st = Inr st' \<Longrightarrow>
     klass st' = klass st \<and> command st' = command st \<and> hidden st' = hidden st \<and>
     arguments st' = arguments st \<and>
     map_option argv (app st') = map_option argv (app st) \<and>
     (app st' = None \<longleftrightarrow> app st = None)"
  by (auto simp: collect_controller_def Let_def Log_debug_def visible_init
        split: if_splits option.splits sum.splits dest!: add_arguments_frame)

lemma collect_controllers_frame:
  "collect_controllers cs st = Inr st' \<Longrightarrow>
     klass st' = klass st \<and> command st' = command st \<and> hidden st' = hidden st \<and>
     arguments st' = arguments st \<and>
     map_option argv (app st') = map_option argv (app st) \<and>
     (app st' = None \<longleftrightarrow> app st = None)"
proof (induction cs arbitrary: st)
  case Nil
  then show ?case by simp
next
  case (Cons c cs)
  from Cons.prems obtain st1 where
    1: "collect_controller c st = Inr st1" and 2: "collect_controllers cs st1 = Inr st'"
    by (auto split: sum.splits)
  from collect_controller_frame [OF 1] Cons.IH [OF 2] show ?case by simp
qed

text \<open>The three stages of \<open>_collect\<close>, for a run that returns.\<close>

lemma collect_unfold:
  assumes "collect registry st = Inr st'"
  obtains st1 st2 where
    "add_arguments (meta_arguments (meta (klass st)))
       (Log_debug (''collecting arguments from '' @ label st @ '' controller'')
          (st\<lparr>visible := [], hidden := [], exposed := [], arguments := []\<rparr>)) = Inr st1"
    and "collect_members (members (klass st))
           (Log_debug (''collecting commands from '' @ label st @ '' controller'') st1) = Inr st2"
    and "collect_controllers registry st2 = Inr st'"
    and "klass st1 = klass st" and "visible st1 = []" and "hidden st1 = []" and "exposed st1 = []"
    and "klass st2 = klass st" and "command st2 = command st"
    and "map_option argv (app st2) = map_option argv (app st)"
    and "(app st2 = None) = (app st = None)"
proof -
  let ?st0 = "st\<lparr>visible := [], hidden := [], exposed := [], arguments := []\<rparr>"
  from assms obtain st1 st2 where
    1: "add_arguments (meta_arguments (meta (klass ?st0)))
          (Log_debug (''collecting arguments from '' @ label ?st0 @ '' controller'') ?st0) = Inr st1"
    and 2: "collect_members (members (klass st1))
              (Log_debug (''collecting commands from '' @ label st1 @ '' controller'') st1) = Inr st2"
    and 3: "collect_controllers registry st2 = Inr st'"
    by (auto simp: collect_def Let_def split: sum.splits)
  from add_arguments_frame [OF 1] have f: "klass st1 = klass st" "visible st1 = []"
    "hidden st1 = []" "exposed st1 = []" "command st1 = command st"
    "map_option argv (app st1) = map_option argv (app st)" "(app st1 = None) = (app st = None)"
    by (simp_all add: Log_debug_def)
  from collect_members_frame [OF 2] f have g: "klass st2 = klass st" "command st2 = command st"
    "map_option argv (app st2) = map_option argv (app st)" "(app st2 = None) = (app st = None)"
    by (simp_all add: Log_debug_def)
  have l: "label ?st0 = label st" "label st1 = label st"
    using f by (simp_all add: label_def)
  from 1 2 3 f g l show ?thesis
    by (intro that [of st1 st2]) simp_all
qed

lemma collect_frame:
  assumes "collect registry st = Inr st'"
  shows "klass st' = klass st \<and> command st' = command st \<and>
     map_option argv (app st') = map_option argv (app st) \<and>
     (app st' = None \<longleftrightarrow> app st = None)"
proof -
  from assms obtain st2 where
    2: "collect_controllers registry st2 = Inr st'"
    and f: "klass st2 = klass st" "command st2 = command st"
      "map_option argv (app st2) = map_option argv (app st)" "(app st2 = None) = (app st = None)"
    by (rule collect_unfold)
  from collect_controllers_frame [OF 2] f show ?thesis
    by simp
qed

section \<open>The scan over the aliases\<close>

lemma scan_aliases_none:
  "\<forall>lf \<in> set cs. tok \<notin> set (fd_aliases (snd lf)) \<Longrightarrow> scan_aliases cs tok = None"
  by (induction cs) auto

lemma scan_aliases_only:
  "distinct (map fst cs) \<Longrightarrow> map_of cs k = Some f \<Longrightarrow> tok \<in> set (fd_aliases f) \<Longrightarrow>
   \<forall>lf \<in> set cs. fst lf \<noteq> k \<longrightarrow> tok \<notin> set (fd_aliases (snd lf)) \<Longrightarrow>
   scan_aliases cs tok = Some (fd_label f)"
proof (induction cs)
  case Nil
  then show ?case by simp
next
  case (Cons lf cs)
  show ?case
  proof (cases "fst lf = k")
    case True
    with Cons.prems show ?thesis by (cases lf) simp
  next
    case False
    with Cons.prems have "map_of cs k = Some f" by (cases lf) simp
    with Cons False show ?thesis by simp
  qed
qed

section \<open>Lines, and \<open>dedent\<close> on a text with a line that is not indented\<close>

lemma split_lines_nonempty: "split_lines s \<noteq> []"
  by (induction s) (auto split: list.splits)

lemma split_lines_append:
  "split_lines (a @ CHR 0x0A # b) = split_lines a @ split_lines b"
  by (induction a) (auto simp: split_lines_nonempty split: list.splits)

lemma split_lines_append_nl:
  "split_lines (a @ nl @ b) = split_lines a @ split_lines b"
  by (simp add: nl_def split_lines_append)

lemma join_append:
  "xs \<noteq> [] \<Longrightarrow> ys \<noteq> [] \<Longrightarrow> join sep (xs @ ys) = join sep xs @ sep @ join sep ys"
  by (induction sep xs rule: join.induct) (auto simp: neq_Nil_conv)

lemma margin_loop_empty: "margin_loop (Some []) indents = Some []"
  by (induction indents) (auto simp: startswith_def)

lemma margin_loop_has_empty:
  "[] \<in> set indents \<Longrightarrow> margin_loop margin indents = Some []"
proof (induction indents arbitrary: margin)
  case Nil
  then show ?case by simp
next
  case (Cons indent indents)
  show ?case
  proof (cases margin)
    case None
    with Cons show ?thesis by (auto simp: margin_loop_empty)
  next
    case (Some m)
    with Cons show ?thesis
      by (cases "indent = []") (auto simp: margin_loop_empty startswith_def)
  qed
qed

lemma remove_margin_empty: "remove_margin (Some []) l = l"
  by (simp add: remove_margin_def)

lemma dedent_no_margin:
  assumes "l \<in> set (split_lines text)" and "l \<noteq> []" and "\<not> is_blank (hd l)"
  shows "dedent text = join nl (map (\<lambda>l. if whitespace_only l then [] else l) (split_lines text))"
proof -
  let ?ls = "map (\<lambda>l. if whitespace_only l then [] else l) (split_lines text)"
  have nw: "\<not> whitespace_only l"
    using assms(2,3) by (auto simp: whitespace_only_def neq_Nil_conv)
  with assms have "l \<in> set (filter (\<lambda>l. l \<noteq> []) ?ls)"
    by force
  moreover have "takeWhile is_blank l = []"
    using assms(2,3) by (auto simp: neq_Nil_conv)
  ultimately have "[] \<in> set (map (takeWhile is_blank) (filter (\<lambda>l. l \<noteq> []) ?ls))"
    by force
  then have "margin_loop None (map (takeWhile is_blank) (filter (\<lambda>l. l \<noteq> []) ?ls)) = Some []"
    by (rule margin_loop_has_empty)
  then show ?thesis
    by (simp add: dedent_def Let_def remove_margin_empty cong: map_cong)
qed

section \<open>\<open>_collect\<close> reads the class, not the commands of the instance\<close>










section \<open>What the loop over the registry does to one key\<close>








section \<open>What the loop over the members does to the key \<open>default\<close>\<close>







section \<open>The registry\<close>


section \<open>Collection\<close>

text \<open>
  C1 asks that after \<open>_collect\<close> on a controller P every command that a controller C
  stacked on P exposes and does not hide is in the \<open>visible\<close> dict of P, under the
  label of C. The code takes the commands of C from \<open>controller().visible\<close>, the dict of
  an instance on which \<open>_collect\<close> has not run, and that dict is empty. With \<open>second\<close>
  stacked on \<open>base\<close>: the command \<open>hello\<close> is visible after \<open>_collect\<close> on \<open>second\<close>
  itself, and after \<open>_collect\<close> on \<open>base\<close> it is neither in \<open>visible\<close> nor in \<open>exposed\<close>.
\<close>

theorem stacked_commands_not_collected:
  "meta_stacked_on (meta second_cls) = Label (meta_label (meta base_cls)) \<and>
   \<not> isl (collect [base_cls, second_cls] (fresh second_cls [])) \<and>
   map_of (visible (projr (collect [base_cls, second_cls] (fresh second_cls [])))) ''hello'' =
     Some \<lparr>fd_controller = ''second'', fd_label = ''hello'', fd_help = ''Say hello'',
       fd_aliases = [], fd_hide = False\<rparr> \<and>
   \<not> isl (collect [base_cls, second_cls] (fresh base_cls [])) \<and>
   map_of (visible (projr (collect [base_cls, second_cls] (fresh base_cls [])))) ''hello'' = None \<and>
   map_of (exposed (projr (collect [base_cls, second_cls] (fresh base_cls [])))) ''hello'' = None"
  by (simp add: example_defs collect_defs)









section \<open>Command resolution\<close>

text \<open>
  C2: take a controller whose \<open>exposed\<close> dict holds the command \<open>list\<close> with the aliases
  \<open>ls\<close> and \<open>l\<close>, where no key of the dict is \<open>l\<close> or \<open>lx\<close> and no other command has
  \<open>l\<close> or \<open>lx\<close> among its aliases, and whose selected command is still \<open>default\<close>. On
  the arguments \<open>l --foo\<close> the chopping step of \<open>setup\<close> removes the first token and
  selects \<open>list\<close>; on \<open>list\<close> it removes the token and selects \<open>list\<close>; on \<open>lx\<close> it
  removes nothing, \<open>lx\<close> stays the first argument and the selected command stays
  \<open>default\<close>.
\<close>

theorem chop_command_alias_resolution:
  assumes d: "distinct (map fst (exposed st))"
    and f: "map_of (exposed st) ''list'' = Some f" "fd_label f = ''list''"
           "fd_aliases f = [''ls'', ''l'']"
    and k: "''l'' \<notin> fst ` set (exposed st)" "''lx'' \<notin> fst ` set (exposed st)"
    and o: "\<forall>lf \<in> set (exposed st). fst lf \<noteq> ''list'' \<longrightarrow>
              ''l'' \<notin> set (fd_aliases (snd lf)) \<and> ''lx'' \<notin> set (fd_aliases (snd lf))"
    and c: "command st = ''default''"
  shows "chop_command (st\<lparr>app := Some (a\<lparr>argv := [''l'', ''--foo'']\<rparr>)\<rparr>) =
            Inr (st\<lparr>command := ''list'', app := Some (a\<lparr>argv := [''--foo'']\<rparr>)\<rparr>)
       \<and> chop_command (st\<lparr>app := Some (a\<lparr>argv := [''list'']\<rparr>)\<rparr>) =
            Inr (st\<lparr>command := ''list'', app := Some (a\<lparr>argv := []\<rparr>)\<rparr>)
       \<and> chop_command (st\<lparr>app := Some (a\<lparr>argv := [''lx'']\<rparr>)\<rparr>) =
            Inr (st\<lparr>command := ''default'', app := Some (a\<lparr>argv := [''lx'']\<rparr>)\<rparr>)"
proof -
  have 1: "scan_aliases (exposed st) ''l'' = Some ''list''"
    using scan_aliases_only [OF d f(1), of "''l''"] f(2,3) o by simp
  have in_list: "(''list'', f) \<in> set (exposed st)"
    using f(1) by (rule map_of_SomeD)
  have "\<forall>lf \<in> set (exposed st). ''lx'' \<notin> set (fd_aliases (snd lf))"
  proof
    fix lf assume lf: "lf \<in> set (exposed st)"
    show "''lx'' \<notin> set (fd_aliases (snd lf))"
    proof (cases "fst lf = ''list''")
      case True
      with lf in_list d have "snd lf = f"
        by (metis eq_key_imp_eq_value prod.collapse)
      with f(3) show ?thesis by simp
    next
      case False
      with o lf show ?thesis by simp
    qed
  qed
  then have 2: "scan_aliases (exposed st) ''lx'' = None"
    by (rule scan_aliases_none)
  have 3: "''list'' \<in> fst ` set (exposed st)"
    using in_list by force
  have 4: "st\<lparr>command := ''default''\<rparr> = st"
    using c by simp
  show ?thesis
    using k 1 2 3 4 by (simp add: chop_command_def startswith_def)
qed

text \<open>
  The three runs on the base controller with the command \<open>list\<close>, after \<open>_collect\<close>
  has filled its \<open>exposed\<close> dict.
\<close>

theorem chop_command_alias_resolution_witness:
  "chop_command ((projr (collect [base_cls] (fresh base_cls [])))
       \<lparr>app := Some (cli [''l'', ''--foo''])\<rparr>) =
     Inr ((projr (collect [base_cls] (fresh base_cls [])))
            \<lparr>command := ''list'', app := Some (cli [''--foo''])\<rparr>)
   \<and> chop_command ((projr (collect [base_cls] (fresh base_cls [])))
       \<lparr>app := Some (cli [''list''])\<rparr>) =
     Inr ((projr (collect [base_cls] (fresh base_cls [])))
            \<lparr>command := ''list'', app := Some (cli [])\<rparr>)
   \<and> chop_command ((projr (collect [base_cls] (fresh base_cls [])))
       \<lparr>app := Some (cli [''lx''])\<rparr>) =
     Inr ((projr (collect [base_cls] (fresh base_cls [])))
            \<lparr>command := ''default'', app := Some (cli [''lx''])\<rparr>)"
proof -
  let ?S = "projr (collect [base_cls] (fresh base_cls []))"
  let ?f = "\<lparr>fd_controller = ''base'', fd_label = ''list'', fd_help = ''List things'',
       fd_aliases = [''ls'', ''l''], fd_hide = False\<rparr>"
  have e: "exposed ?S = [(''default'', \<lparr>fd_controller = ''base'', fd_label = ''default'',
       fd_help = ''default command'', fd_aliases = [], fd_hide = True\<rparr>), (''list'', ?f)]"
    and c: "command ?S = ''default''"
    by (simp_all add: example_defs collect_defs)
  have d: "distinct (map fst (exposed ?S))"
    and f: "map_of (exposed ?S) ''list'' = Some ?f" "fd_label ?f = ''list''"
      "fd_aliases ?f = [''ls'', ''l'']"
    and k: "''l'' \<notin> fst ` set (exposed ?S)" "''lx'' \<notin> fst ` set (exposed ?S)"
    and o: "\<forall>lf \<in> set (exposed ?S). fst lf \<noteq> ''list'' \<longrightarrow>
              ''l'' \<notin> set (fd_aliases (snd lf)) \<and> ''lx'' \<notin> set (fd_aliases (snd lf))"
    unfolding e by simp_all
  from chop_command_alias_resolution [OF d f k o c, of "cli []"] show ?thesis
    by (simp add: cli_def)
qed

text \<open>
  C3: if the remaining arguments are empty or the first one starts with \<open>-\<close>, the
  chopping step returns the instance as it was, with the arguments untouched, whatever
  the instance; and in \<open>setup\<close> on a new instance, where \<open>_collect\<close> has run before,
  the selected command is then still \<open>default\<close>.
\<close>

theorem chop_command_no_command:
  assumes "argv a = [] \<or> startswith (hd (argv a)) ''-''"
  shows "chop_command (st\<lparr>app := Some a\<rparr>) = Inr (st\<lparr>app := Some a\<rparr>) \<and>
     (collect registry ((init c)\<lparr>app := Some a\<rparr>) = Inr st1 \<longrightarrow>
        chop_command st1 = Inr st1 \<and> command st1 = ''default'' \<and>
        map_option argv (app st1) = Some (argv a))"
proof -
  have 1: "chop_command s = Inr s" if "app s = Some b" and "argv b = argv a" for s b
    using that assms by (auto simp: chop_command_def split: list.splits)
  have 2: "chop_command st1 = Inr st1 \<and> command st1 = ''default'' \<and>
        map_option argv (app st1) = Some (argv a)"
    if "collect registry ((init c)\<lparr>app := Some a\<rparr>) = Inr st1"
  proof -
    from collect_frame [OF that] have c: "command st1 = ''default''"
      and m: "map_option argv (app st1) = Some (argv a)"
      by (simp_all add: init_def)
    from m obtain b where "app st1 = Some b" and "argv b = argv a"
      by auto
    with 1 c m show ?thesis by simp
  qed
  from 1 [of "st\<lparr>app := Some a\<rparr>" a] 2 show ?thesis by simp
qed

text \<open>An option first, and no argument at all, on the base controller.\<close>

theorem chop_command_no_command_witness:
  "chop_command (fresh base_cls [''--foo'', ''list'']) = Inr (fresh base_cls [''--foo'', ''list''])
   \<and> chop_command (projr (collect [base_cls] (fresh base_cls [''--foo'', ''list'']))) =
       Inr (projr (collect [base_cls] (fresh base_cls [''--foo'', ''list''])))
   \<and> command (projr (collect [base_cls] (fresh base_cls [''--foo'', ''list'']))) = ''default''
   \<and> map_option argv (app (projr (collect [base_cls] (fresh base_cls [''--foo'', ''list''])))) =
       Some [''--foo'', ''list'']
   \<and> chop_command (projr (collect [base_cls] (fresh base_cls []))) =
       Inr (projr (collect [base_cls] (fresh base_cls [])))
   \<and> command (projr (collect [base_cls] (fresh base_cls []))) = ''default''"
proof -
  have h1: "argv (cli [''--foo'', ''list'']) = [] \<or>
      startswith (hd (argv (cli [''--foo'', ''list'']))) ''-''"
    by (simp add: cli_def startswith_def)
  have h2: "argv (cli []) = [] \<or> startswith (hd (argv (cli []))) ''-''"
    by (simp add: cli_def)
  have c1: "collect [base_cls] ((init base_cls)\<lparr>app := Some (cli [''--foo'', ''list''])\<rparr>) =
      Inr (projr (collect [base_cls] (fresh base_cls [''--foo'', ''list''])))"
    and c2: "collect [base_cls] ((init base_cls)\<lparr>app := Some (cli [])\<rparr>) =
      Inr (projr (collect [base_cls] (fresh base_cls [])))"
    by (simp_all add: example_defs collect_defs)
  from chop_command_no_command [OF h1, of "init base_cls" "[base_cls]" base_cls] c1
    chop_command_no_command [OF h2, of "init base_cls" "[base_cls]" base_cls] c2
  show ?thesis
    by (simp add: fresh_def cli_def)
qed

section \<open>Dispatch\<close>

text \<open>
  C5: if the selected command is not a key of \<open>exposed\<close>, \<open>dispatch\<close> returns without an
  error, whatever the code of the application is, and the instance it leaves differs
  from the one it found by one more line for \<open>Log.debug\<close> only: \<open>exposed\<close>, \<open>visible\<close>,
  \<open>hidden\<close>, \<open>command\<close> and the arguments of the application are as before.
\<close>

theorem dispatch_unknown_command:
  assumes "command st \<notin> fst ` set (exposed st)"
  shows "dispatch app_code registry st =
           Inr (st\<lparr>debug := debug st @
                  [if command st = [] then ''no command to dispatch''
                   else ''no function named '' @ command st]\<rparr>)"
proof -
  from assms have "map_of (exposed st) (command st) = None"
    by (simp add: map_of_eq_None_iff)
  then show ?thesis
    by (simp add: dispatch_def Log_debug_def)
qed

text \<open>The base controller after \<open>_collect\<close>, with the command \<open>lx\<close> that it does not expose.\<close>

theorem dispatch_unknown_command_witness:
  "dispatch ran [base_cls] ((projr (collect [base_cls] (fresh base_cls [])))\<lparr>command := ''lx''\<rparr>) =
     Inr ((projr (collect [base_cls] (fresh base_cls [])))
            \<lparr>command := ''lx'',
             debug := [''collecting arguments from base controller'',
                       ''collecting commands from base controller'',
                       ''no function named lx'']\<rparr>)"
proof -
  let ?S = "(projr (collect [base_cls] (fresh base_cls [])))\<lparr>command := ''lx''\<rparr>"
  have "command ?S \<notin> fst ` set (exposed ?S)"
    by (simp add: example_defs collect_defs)
  from dispatch_unknown_command [OF this, of ran "[base_cls]"] show ?thesis
    by (simp add: example_defs collect_defs)
qed

text \<open>
  C6: the method \<open>default\<close> of the base class raises \<open>NotImplementedError\<close>. So does
  calling the attribute \<open>default\<close> of any instance whose class has inherited it, and so
  does \<open>dispatch\<close> when the selected command is \<open>default\<close> and its entry in \<open>exposed\<close> is
  the controller's own.
\<close>

theorem default_not_implemented:
  assumes "map_of (members (klass st)) ''default'' = Some base_default"
  shows "default st = Inl NotImplementedError \<and>
     call_method app_code st ''default'' = Inl NotImplementedError \<and>
     (command st = ''default'' \<and> map_of (exposed st) ''default'' = Some func \<and>
      fd_controller func = label st \<and> fd_label func = ''default'' \<longrightarrow>
        dispatch app_code registry st = Inl NotImplementedError)"
  using assms
  by (simp add: default_def call_method_def base_default_def dispatch_def Let_def Log_debug_def)

text \<open>The base controller after \<open>_collect\<close>, where no command was selected.\<close>

theorem default_not_implemented_witness:
  "default (projr (collect [base_cls] (fresh base_cls []))) = Inl NotImplementedError \<and>
   call_method ran (projr (collect [base_cls] (fresh base_cls []))) ''default'' =
     Inl NotImplementedError \<and>
   command (projr (collect [base_cls] (fresh base_cls []))) = ''default'' \<and>
   dispatch ran [base_cls] (projr (collect [base_cls] (fresh base_cls []))) =
     Inl NotImplementedError"
proof -
  let ?S = "projr (collect [base_cls] (fresh base_cls []))"
  let ?f = "\<lparr>fd_controller = ''base'', fd_label = ''default'', fd_help = ''default command'',
       fd_aliases = [], fd_hide = True\<rparr>"
  have m: "map_of (members (klass ?S)) ''default'' = Some base_default"
    and c: "command ?S = ''default''" "map_of (exposed ?S) ''default'' = Some ?f"
      "fd_controller ?f = label ?S" "fd_label ?f = ''default''"
    by (simp_all add: example_defs collect_defs)
  from default_not_implemented [OF m, of ran ?f "[base_cls]"] c show ?thesis
    by simp
qed



section \<open>Help text\<close>

text \<open>
  C8: for a controller whose \<open>visible\<close> dict has the one command \<open>go\<close>, without aliases
  and with the help \<open>Go somewhere\<close>, the help text is the description, with its lines
  of blanks emptied, an empty line, the line \<open>commands:\<close>, an empty line, the line
  \<open>go\<close> indented by two blanks, the line \<open>Go somewhere\<close> indented by four, and four
  empty lines.
\<close>

theorem help_text_go:
  assumes "visible st = [(k, func)]" and "fd_label func = ''go''" and "fd_aliases func = []"
    and "fd_help func = ''Go somewhere''" and "meta_description (meta (klass st)) = Some d"
  shows "help_text st =
    Inr (join nl (map (\<lambda>l. if whitespace_only l then [] else l) (split_lines d))
         @ nl @ nl @ ''commands:'' @ nl @ nl
         @ ''  go'' @ nl @ ''    Go somewhere'' @ nl @ nl @ nl @ nl @ nl)"
proof -
  let ?text = "d @ nl @ nl @ ''commands:'' @ nl @ nl @ (''  go'' @ nl @ ''    Go somewhere'' @ nl @ nl)
                 @ nl @ nl @ ''        '' @ nl @ ''        ''"
  have cmd: "fold add_command_text (visible st) [] = ''  go'' @ nl @ ''    Go somewhere'' @ nl @ nl"
    using assms by (simp add: add_command_text_def Let_def)
  have sl: "split_lines ?text = split_lines d @
      [[], ''commands:'', [], ''  go'', ''    Go somewhere'', [], [], [], ''        '', ''        '']"
    by (simp add: split_lines_append_nl) (simp add: nl_def)
  have "dedent ?text = join nl (map (\<lambda>l. if whitespace_only l then [] else l) (split_lines ?text))"
  proof (rule dedent_no_margin [of "''commands:''"])
    show "''commands:'' \<in> set (split_lines ?text)"
      unfolding sl by simp
  qed (simp_all add: is_blank_def)
  also have "\<dots> = join nl (map (\<lambda>l. if whitespace_only l then [] else l) (split_lines d))
         @ nl @ nl @ ''commands:'' @ nl @ nl
         @ ''  go'' @ nl @ ''    Go somewhere'' @ nl @ nl @ nl @ nl @ nl"
    unfolding sl map_append
    by (subst join_append) (simp_all add: split_lines_nonempty whitespace_only_def is_blank_def)
  finally show ?thesis
    using assms(5) cmd by (simp add: help_text_def Let_def)
qed

text \<open>With the description \<open>My app\<close>.\<close>

theorem help_text_go_witness:
  "help_text ((init base_cls)\<lparr>visible := [(''go'', \<lparr>fd_controller = ''base'', fd_label = ''go'',
       fd_help = ''Go somewhere'', fd_aliases = [], fd_hide = False\<rparr>)]\<rparr>) =
     Inr (''My app'' @ nl @ nl @ ''commands:'' @ nl @ nl
          @ ''  go'' @ nl @ ''    Go somewhere'' @ nl @ nl @ nl @ nl @ nl)"
proof -
  let ?f = "\<lparr>fd_controller = ''base'', fd_label = ''go'',
       fd_help = ''Go somewhere'', fd_aliases = [], fd_hide = False\<rparr>"
  let ?st = "(init base_cls)\<lparr>visible := [(''go'', ?f)]\<rparr>"
  have h: "visible ?st = [(''go'', ?f)]" "fd_label ?f = ''go''" "fd_aliases ?f = []"
    "fd_help ?f = ''Go somewhere''" "meta_description (meta (klass ?st)) = Some ''My app''"
    by (simp_all add: example_defs)
  have "join nl (map (\<lambda>l. if whitespace_only l then [] else l) (split_lines ''My app'')) = ''My app''"
    by (simp add: whitespace_only_def is_blank_def)
  with help_text_go [OF h] show ?thesis
    by simp
qed

end
